theory Spec2Isabelle
  imports Main
begin

section \<open>The interpreter's values, as the bridge sees them\<close>

text \<open>
  The package wraps values of the embedded Lua interpreter (gopher-lua). A script datum
  is an \<open>LValue\<close>: nil, a boolean, a number, a string, or a reference to a function,
  user data, coroutine, table or channel object. Numbers are float64 in the interpreter;
  the model keeps them in a type parameter \<open>'n\<close> (with the zero the interpreter falls
  back to) and takes the three conversions the bridge reaches as parameters.
\<close>

datatype LValueType =
  LTNil | LTBool | LTNumber | LTString | LTFunction | LTUserData | LTThread | LTTable | LTChannel

datatype 'n LValue =
  LNil
| LBool bool
| LNumber 'n
| LString string
| LFunction nat
| LUserData nat
| LThread nat
| LTable nat
| LChannel nat

abbreviation LTrue :: "'n LValue" where
  "LTrue \<equiv> LBool True"

abbreviation LFalse :: "'n LValue" where
  "LFalse \<equiv> LBool False"

fun Type :: "'n LValue \<Rightarrow> LValueType" where
  "Type LNil = LTNil"
| "Type (LBool b) = LTBool"
| "Type (LNumber n) = LTNumber"
| "Type (LString s) = LTString"
| "Type (LFunction f) = LTFunction"
| "Type (LUserData u) = LTUserData"
| "Type (LThread t) = LTThread"
| "Type (LTable t) = LTTable"
| "Type (LChannel c) = LTChannel"

text \<open>
  The float64 conversions of the interpreter and of the marshalling library:
  \<open>parseNumber\<close> reads a numeric-looking string, \<open>numberString\<close> is
  \<open>LNumber.String()\<close>, \<open>float64OfInt\<close> is Go's \<open>float64(i)\<close>.
\<close>

record 'n number_ops =
  parseNumber :: "string \<Rightarrow> 'n option"
  numberString :: "'n \<Rightarrow> string"
  float64OfInt :: "int \<Rightarrow> 'n"

text \<open>The interpreter's coercions \<open>lua.LVIsFalse\<close>, \<open>lua.LVAsBool\<close>,
  \<open>lua.LVAsString\<close> and \<open>lua.LVAsNumber\<close>.\<close>

definition LVIsFalse :: "'n LValue \<Rightarrow> bool" where
  "LVIsFalse v = (v = LNil \<or> v = LFalse)"

definition LVAsBool :: "'n LValue \<Rightarrow> bool" where
  "LVAsBool v = (v \<noteq> LNil \<and> v \<noteq> LFalse)"

fun LVAsString :: "'n number_ops \<Rightarrow> 'n LValue \<Rightarrow> string" where
  "LVAsString N (LString s) = s"
| "LVAsString N (LNumber n) = numberString N n"
| "LVAsString N v = []"

fun LVAsNumber :: "('n::zero) number_ops \<Rightarrow> 'n LValue \<Rightarrow> 'n" where
  "LVAsNumber N (LNumber n) = n"
| "LVAsNumber N (LString s) = (case parseNumber N s of Some num \<Rightarrow> num | None \<Rightarrow> 0)"
| "LVAsNumber N v = 0"

section \<open>Value\<close>

text \<open>
  \<open>Value\<close> is the struct with the single field \<open>lval\<close>; \<open>newValue\<close> is its only
  constructor in the package, and every function of the package that returns a
  \<open>*Value\<close> allocates it there. So a Value always wraps a script datum: the nil pointer
  and the zero struct, which host code could build by hand, are not values of the model.
\<close>

record 'n Value =
  lval :: "'n LValue"

definition newValue :: "'n LValue \<Rightarrow> 'n Value" where
  "newValue val = \<lparr>lval = val\<rparr>"

definition AsString :: "'n number_ops \<Rightarrow> 'n Value \<Rightarrow> string" where
  "AsString N v = LVAsString N (lval v)"

definition AsFloat :: "('n::zero) number_ops \<Rightarrow> 'n Value \<Rightarrow> 'n" where
  "AsFloat N v = LVAsNumber N (lval v)"

definition AsNumber :: "('n::zero) number_ops \<Rightarrow> 'n Value \<Rightarrow> 'n" where
  "AsNumber N v = AsFloat N v"

definition AsBool :: "'n Value \<Rightarrow> bool" where
  "AsBool v = LVAsBool (lval v)"

definition IsNil :: "'n Value \<Rightarrow> bool" where
  "IsNil v = (Type (lval v) = LTNil)"

definition IsFalse :: "'n Value \<Rightarrow> bool" where
  "IsFalse v = LVIsFalse (lval v)"

definition IsTrue :: "'n Value \<Rightarrow> bool" where
  "IsTrue v = (\<not> IsFalse v)"

definition IsNumber :: "'n Value \<Rightarrow> bool" where
  "IsNumber v = (Type (lval v) = LTNumber)"

definition IsBool :: "'n Value \<Rightarrow> bool" where
  "IsBool v = (Type (lval v) = LTBool)"

definition IsFunction :: "'n Value \<Rightarrow> bool" where
  "IsFunction v = (Type (lval v) = LTFunction)"

definition IsString :: "'n Value \<Rightarrow> bool" where
  "IsString v = (Type (lval v) = LTString)"

definition IsTable :: "'n Value \<Rightarrow> bool" where
  "IsTable v = (Type (lval v) = LTTable)"

text \<open>
  Modelled from the spec: \<open>LuaNil()\<close> is called by \<open>TableNext\<close> and \<open>TableRemove\<close>
  but its declaration is not among the source files. The spec calls its result the
  canonical nil-representative, "a Value constructed from nil"; the comment on
  \<open>GetGlobal\<close> names it as what wraps the interpreter's nil.
\<close>

definition LuaNil :: "'n Value" where
  "LuaNil = newValue LNil"

subsection \<open>Table operations\<close>

text \<open>
  A table is an object of the interpreter, reached through the reference an
  \<open>LTable\<close> value carries; \<open>'t\<close> is the interpreter's table object and the heap maps
  references to objects. The methods of \<open>*lua.LTable\<close> are the interpreter's and are
  taken as parameters. \<open>LTable_ForEach\<close> gives the entries the interpreter's
  \<open>ForEach\<close> visits, in its order. A Go panic is a value of \<open>GoPanic\<close>. An
  error of the interpreter is a value of \<open>LuaError\<close>: the one it raises for a call on
  a value that is not callable, or any other; the text of its diagnostic is the
  interpreter's and is not modelled.
\<close>

datatype LuaError = CallNonFunction | Raised string

datatype GoPanic = ApiError LuaError | RuntimeError string

record ('n, 't) table_ops =
  LTable_Append :: "'t \<Rightarrow> 'n LValue \<Rightarrow> 't"
  LTable_Insert :: "'t \<Rightarrow> int \<Rightarrow> 'n LValue \<Rightarrow> 't"
  LTable_Remove :: "'t \<Rightarrow> int \<Rightarrow> 'n LValue \<times> 't"
  LTable_Len :: "'t \<Rightarrow> int"
  LTable_MaxN :: "'t \<Rightarrow> int"
  LTable_Next :: "'t \<Rightarrow> 'n LValue \<Rightarrow> 'n LValue \<times> 'n LValue"
  LTable_ForEach :: "'t \<Rightarrow> ('n LValue \<times> 'n LValue) list"

type_synonym 't table_heap = "nat \<Rightarrow> 't"

definition nilDereference :: GoPanic where
  "nilDereference = RuntimeError ''invalid memory address or nil pointer dereference''"

definition isTable :: "'n Value \<Rightarrow> bool" where
  "isTable v = (Type (lval v) = LTTable)"

text \<open>\<open>asTable\<close> is the type assertion \<open>v.lval.(*lua.LTable)\<close> with its \<open>ok\<close>
  dropped: the table's reference, or the nil pointer (\<open>None\<close>).\<close>

definition asTable :: "'n Value \<Rightarrow> nat option" where
  "asTable v = (case lval v of LTable t \<Rightarrow> Some t | _ \<Rightarrow> None)"

definition TableAppend ::
  "('n, 't) table_ops \<Rightarrow> 'n Value \<Rightarrow> 'n Value \<Rightarrow> 't table_heap \<Rightarrow> GoPanic + 't table_heap" where
  "TableAppend T v value h =
     (if isTable v then
        (case asTable v of
           None \<Rightarrow> Inl nilDereference
         | Some t \<Rightarrow> Inr (h(t := LTable_Append T (h t) (lval value))))
      else Inr h)"

definition TableForEach ::
  "('n, 't) table_ops \<Rightarrow> 'n Value \<Rightarrow> ('n Value \<Rightarrow> 'n Value \<Rightarrow> 'a \<Rightarrow> 'a) \<Rightarrow> 't table_heap \<Rightarrow> 'a
     \<Rightarrow> GoPanic + 'a" where
  "TableForEach T v cb h acc =
     (if isTable v then
        (let actualCb = (\<lambda>(key, val). cb (newValue key) (newValue val)) in
         case asTable v of
           None \<Rightarrow> Inl nilDereference
         | Some t \<Rightarrow> Inr (fold actualCb (LTable_ForEach T (h t)) acc))
      else Inr acc)"

definition TableInsert ::
  "('n, 't) table_ops \<Rightarrow> 'n Value \<Rightarrow> int \<Rightarrow> 'n Value \<Rightarrow> 't table_heap \<Rightarrow> GoPanic + 't table_heap" where
  "TableInsert T v i value h =
     (if isTable v then
        (case asTable v of
           None \<Rightarrow> Inl nilDereference
         | Some t \<Rightarrow> Inr (h(t := LTable_Insert T (h t) i (lval value))))
      else Inr h)"

definition TableLen :: "('n, 't) table_ops \<Rightarrow> 'n Value \<Rightarrow> 't table_heap \<Rightarrow> GoPanic + int" where
  "TableLen T v h =
     (if isTable v then
        (case asTable v of
           None \<Rightarrow> Inl nilDereference
         | Some t \<Rightarrow> Inr (LTable_Len T (h t)))
      else Inr (- 1))"

definition TableMaxN :: "('n, 't) table_ops \<Rightarrow> 'n Value \<Rightarrow> 't table_heap \<Rightarrow> GoPanic + int" where
  "TableMaxN T v h =
     (if isTable v then
        (case asTable v of
           None \<Rightarrow> Inl nilDereference
         | Some t \<Rightarrow> Inr (LTable_MaxN T (h t)))
      else Inr 0)"

definition TableNext ::
  "('n, 't) table_ops \<Rightarrow> 'n Value \<Rightarrow> 'n Value \<Rightarrow> 't table_heap \<Rightarrow> GoPanic + ('n Value \<times> 'n Value)" where
  "TableNext T v key h =
     (if isTable v then
        (case asTable v of
           None \<Rightarrow> Inl nilDereference
         | Some t \<Rightarrow>
             (let (v1, v2) = LTable_Next T (h t) (lval key) in Inr (newValue v1, newValue v2)))
      else Inr (LuaNil, LuaNil))"

definition TableRemove ::
  "('n, 't) table_ops \<Rightarrow> 'n Value \<Rightarrow> int \<Rightarrow> 't table_heap \<Rightarrow> GoPanic + ('n Value \<times> 't table_heap)" where
  "TableRemove T v pos h =
     (if isTable v then
        (case asTable v of
           None \<Rightarrow> Inl nilDereference
         | Some t \<Rightarrow>
             (let (ret, tb) = LTable_Remove T (h t) pos in Inr (newValue ret, h(t := tb))))
      else Inr (LuaNil, h))"

section \<open>The interpreter state\<close>

text \<open>
  \<open>LState\<close> is the interpreter's data as the bridge reaches it: the registers of the
  running call frame (\<open>stack\<close>, top first), the global table, and the metamethod a
  value's metatable holds for an event (\<open>metaOp1\<close>, nil when none). Function objects and
  module loaders are closures over \<open>*LState\<close>; a record cannot hold functions over
  itself, so they are kept beside it: \<open>Callee\<close> is what calling a function object
  does (the error it raises or the values it returns, and the state it leaves), and
  \<open>Registry\<close> is the package library's \<open>preload\<close> and \<open>loaded\<close> tables.
\<close>

record 'n LState =
  stack :: "'n LValue list"
  globals :: "string \<rightharpoonup> 'n LValue"
  metaOp1 :: "'n LValue \<Rightarrow> string \<Rightarrow> 'n LValue"

type_synonym GoError = "LuaError option"

type_synonym 'n LGFunction = "'n LState \<Rightarrow> GoPanic + (int \<times> 'n LState)"

type_synonym 'n Callee = "'n LValue list \<Rightarrow> 'n LState \<Rightarrow> (LuaError + 'n LValue list) \<times> 'n LState"

record 'n Registry =
  preload :: "string \<rightharpoonup> 'n LGFunction"
  loaded :: "string \<rightharpoonup> 'n LValue"

text \<open>\<open>LState.Get\<close>: a positive index counts from the frame's base, a negative one
  from its top; outside the frame the result is nil. (Pseudo-indices are not modelled.)\<close>

definition LState_Get :: "'n LState \<Rightarrow> int \<Rightarrow> 'n LValue" where
  "LState_Get ls idx =
     (let regs = rev (stack ls); top = int (length regs) in
      if idx > 0 then (if idx - 1 < top then regs ! nat (idx - 1) else LNil)
      else if idx = 0 then LNil
      else (let tidx = top + idx in if tidx < 0 then LNil else regs ! nat tidx))"

text \<open>\<open>LState.Pop(n)\<close> removes one register at a time and raises
  "register underflow" on an empty frame.\<close>

fun pop_loop :: "nat \<Rightarrow> 'n LState \<Rightarrow> GoPanic + 'n LState" where
  "pop_loop 0 ls = Inr ls"
| "pop_loop (Suc k) ls =
     (case stack ls of
        [] \<Rightarrow> Inl (ApiError (Raised ''register underflow''))
      | x # xs \<Rightarrow> pop_loop k (ls\<lparr>stack := xs\<rparr>))"

definition LState_Pop :: "'n LState \<Rightarrow> int \<Rightarrow> GoPanic + 'n LState" where
  "LState_Pop ls n = pop_loop (nat n) ls"

definition LState_Push :: "'n LState \<Rightarrow> 'n LValue \<Rightarrow> 'n LState" where
  "LState_Push ls v = ls\<lparr>stack := v # stack ls\<rparr>"

text \<open>The global table: an absent name reads as nil, and storing nil removes the name.\<close>

definition LState_GetGlobal :: "'n LState \<Rightarrow> string \<Rightarrow> 'n LValue" where
  "LState_GetGlobal ls name = (case globals ls name of None \<Rightarrow> LNil | Some v \<Rightarrow> v)"

definition LState_SetGlobal :: "'n LState \<Rightarrow> string \<Rightarrow> 'n LValue \<Rightarrow> 'n LState" where
  "LState_SetGlobal ls name v =
     ls\<lparr>globals := (if v = LNil then (globals ls)(name := None) else (globals ls)(name \<mapsto> v))\<rparr>"

text \<open>
  \<open>LState.metaCall\<close>: what a call on a value runs. A function object is called as it
  is; any other value is callable when the \<open>__call\<close> metamethod of its metatable is a
  function object, which is then called with the value as its first argument.
\<close>

definition metaCall :: "'n LState \<Rightarrow> 'n LValue \<Rightarrow> (nat \<times> bool) option" where
  "metaCall ls lvalue =
     (case lvalue of
        LFunction fn \<Rightarrow> Some (fn, False)
      | _ \<Rightarrow>
          (case metaOp1 ls lvalue ''__call'' of
             LFunction fn \<Rightarrow> Some (fn, True)
           | _ \<Rightarrow> None))"

text \<open>
  \<open>LState.CallByParam\<close> with the parameter struct \<open>lua.P\<close>. A call on a value that
  is not callable raises the interpreter's error. A protected call hands the error back
  and leaves the caller's registers as they were; on success the results, adjusted to
  \<open>NRet\<close> (cut, or padded with nil; all of them for \<open>MultRet\<close>), are pushed in return
  order, the last one on top.
\<close>

record 'n P =
  Fn :: "'n LValue"
  NRet :: int
  Protect :: bool

definition MultRet :: int where
  "MultRet = - 1"

definition adjustResults :: "int \<Rightarrow> 'n LValue list \<Rightarrow> 'n LValue list" where
  "adjustResults nret rets =
     (if nret = MultRet then rets
      else take (nat nret) rets @ replicate (nat nret - length rets) LNil)"

definition LState_CallByParam ::
  "(nat \<Rightarrow> 'n Callee) \<Rightarrow> 'n LState \<Rightarrow> 'n P \<Rightarrow> 'n LValue list \<Rightarrow> GoPanic + (GoError \<times> 'n LState)" where
  "LState_CallByParam F ls cp args =
     (case (case metaCall ls (Fn cp) of
              None \<Rightarrow> (Inl CallNonFunction, ls)
            | Some (f, meta) \<Rightarrow> F f (if meta then Fn cp # args else args) ls) of
        (Inl err, ls') \<Rightarrow>
          if Protect cp then Inr (Some err, ls'\<lparr>stack := stack ls\<rparr>) else Inl (ApiError err)
      | (Inr rets, ls') \<Rightarrow>
          Inr (None, ls'\<lparr>stack := rev (adjustResults (NRet cp) rets) @ stack ls\<rparr>))"

text \<open>The interpreter calls a Go function on a fresh frame that holds the call's
  arguments, pushed left to right.\<close>

definition enterFrame :: "'n LState \<Rightarrow> 'n LValue list \<Rightarrow> 'n LState" where
  "enterFrame ls args = ls\<lparr>stack := rev args\<rparr>"

definition LState_PreloadModule :: "'n Registry \<Rightarrow> string \<Rightarrow> 'n LGFunction \<Rightarrow> 'n Registry" where
  "LState_PreloadModule reg name loader = reg\<lparr>preload := (preload reg)(name \<mapsto> loader)\<rparr>"

text \<open>
  Modelled from the spec: the interpreter's \<open>require\<close> is not among the source files.
  The spec's words are that the interpreter invokes the loader on the first require of
  the name, lazily, at most once per name, and that the invocation produces exactly one
  result value. The first component of the result says whether this require invoked the
  loader; the second is the module value.
\<close>

definition require ::
  "'n Registry \<Rightarrow> 'n LState \<Rightarrow> string \<Rightarrow> GoPanic + (bool \<times> 'n LValue \<times> 'n Registry \<times> 'n LState)" where
  "require reg ls name =
     (case loaded reg name of
        Some m \<Rightarrow> Inr (False, m, reg, ls)
      | None \<Rightarrow>
          (case preload reg name of
             None \<Rightarrow> Inl (ApiError (Raised ''module not found''))
           | Some loader \<Rightarrow>
               (case loader (enterFrame ls [LString name]) of
                  Inl p \<Rightarrow> Inl p
                | Inr (n, ls') \<Rightarrow>
                    (let m = LState_Get ls' (- 1) in
                     Inr (True, m, reg\<lparr>loaded := (loaded reg)(name \<mapsto> m)\<rparr>,
                          ls'\<lparr>stack := stack ls\<rparr>)))))"

section \<open>Marshalling host values\<close>

text \<open>
  A host value crossing the boundary is an \<open>interface{}\<close>: a \<open>*Value\<close> of this
  package, or anything else. \<open>luar.New\<close> is the marshalling library's: nil, an LValue,
  a bool, an integer, a float and a string become the script datum of the same kind; a
  Go function becomes a function object that calls it; every other host object becomes
  user data by reflection. Functions and objects are kept by their identity.
\<close>

datatype 'n GoValue =
  GoNil
| GoLValue "'n LValue"
| GoBool bool
| GoInt int
| GoFloat 'n
| GoString string
| GoFunc nat
| GoObject nat

datatype 'n iface = ValuePtr "'n Value" | Other "'n GoValue"

fun luar_New :: "'n number_ops \<Rightarrow> 'n LState \<Rightarrow> 'n GoValue \<Rightarrow> 'n LValue" where
  "luar_New N L GoNil = LNil"
| "luar_New N L (GoLValue lv) = lv"
| "luar_New N L (GoBool b) = LBool b"
| "luar_New N L (GoInt i) = LNumber (float64OfInt N i)"
| "luar_New N L (GoFloat f) = LNumber f"
| "luar_New N L (GoString s) = LString s"
| "luar_New N L (GoFunc k) = LFunction k"
| "luar_New N L (GoObject k) = LUserData k"

section \<open>Engine\<close>

record 'n Engine =
  state :: "'n LState"

type_synonym 'n ScriptFunction = "'n Engine \<Rightarrow> GoPanic + (int \<times> 'n Engine)"

fun ValueFor :: "'n number_ops \<Rightarrow> 'n Engine \<Rightarrow> 'n iface \<Rightarrow> 'n Value" where
  "ValueFor N e (ValuePtr v) = v"
| "ValueFor N e (Other val) = newValue (luar_New N (state e) val)"

definition SetGlobal :: "'n number_ops \<Rightarrow> 'n Engine \<Rightarrow> string \<Rightarrow> 'n iface \<Rightarrow> 'n Engine" where
  "SetGlobal N e name val =
     (let v = ValueFor N e val in e\<lparr>state := LState_SetGlobal (state e) name (lval v)\<rparr>)"

definition GetGlobal :: "'n Engine \<Rightarrow> string \<Rightarrow> 'n Value" where
  "GetGlobal e name = (let lv = LState_GetGlobal (state e) name in newValue lv)"

definition PopArg :: "'n Engine \<Rightarrow> GoPanic + ('n Value \<times> 'n Engine)" where
  "PopArg e =
     (let lv = LState_Get (state e) (- 1) in
      case LState_Pop (state e) 1 of
        Inl p \<Rightarrow> Inl p
      | Inr ls \<Rightarrow> Inr (newValue lv, e\<lparr>state := ls\<rparr>))"

definition PushRet :: "'n number_ops \<Rightarrow> 'n Engine \<Rightarrow> 'n iface \<Rightarrow> 'n Engine" where
  "PushRet N e val = (let v = ValueFor N e val in e\<lparr>state := LState_Push (state e) (lval v)\<rparr>)"

definition PopBool :: "'n Engine \<Rightarrow> GoPanic + (bool \<times> 'n Engine)" where
  "PopBool e = (case PopArg e of Inl p \<Rightarrow> Inl p | Inr (v, e') \<Rightarrow> Inr (AsBool v, e'))"

definition PopFunction :: "'n Engine \<Rightarrow> GoPanic + ('n Value \<times> 'n Engine)" where
  "PopFunction e = PopArg e"

definition PopFloat :: "('n::zero) number_ops \<Rightarrow> 'n Engine \<Rightarrow> GoPanic + ('n \<times> 'n Engine)" where
  "PopFloat N e = (case PopArg e of Inl p \<Rightarrow> Inl p | Inr (v, e') \<Rightarrow> Inr (AsFloat N v, e'))"

definition PopNumber :: "'n Engine \<Rightarrow> GoPanic + ('n Value \<times> 'n Engine)" where
  "PopNumber e = PopArg e"

definition PopString :: "'n number_ops \<Rightarrow> 'n Engine \<Rightarrow> GoPanic + (string \<times> 'n Engine)" where
  "PopString N e = (case PopArg e of Inl p \<Rightarrow> Inl p | Inr (v, e') \<Rightarrow> Inr (AsString N v, e'))"

definition PopTable :: "'n Engine \<Rightarrow> GoPanic + ('n Value \<times> 'n Engine)" where
  "PopTable e = PopArg e"

text \<open>\<open>wrapScriptFunction\<close>: the closure binds a fresh Engine to the state it is
  called on and runs the ScriptFunction.\<close>

definition wrapScriptFunction :: "'n ScriptFunction \<Rightarrow> 'n LGFunction" where
  "wrapScriptFunction fn =
     (\<lambda>l. let e = \<lparr>state = l\<rparr> in
          case fn e of Inl p \<Rightarrow> Inl p | Inr (n, e') \<Rightarrow> Inr (n, state e'))"

text \<open>\<open>RegisterModule\<close>: the closure \<open>loader\<close>, and its registration. The load
  function runs on the Engine and returns the module's Value.\<close>

type_synonym 'n LoadFn = "'n Engine \<Rightarrow> GoPanic + ('n Value \<times> 'n Engine)"

definition RegisterModule_loader :: "'n number_ops \<Rightarrow> 'n LoadFn \<Rightarrow> 'n LGFunction" where
  "RegisterModule_loader N loadFn =
     (\<lambda>l. let e = \<lparr>state = l\<rparr> in
          case loadFn e of
            Inl p \<Rightarrow> Inl p
          | Inr (m, e1) \<Rightarrow> (let e2 = PushRet N e1 (ValuePtr m) in Inr (1, state e2)))"

definition RegisterModule ::
  "'n number_ops \<Rightarrow> 'n Engine \<Rightarrow> 'n Registry \<Rightarrow> string \<Rightarrow> 'n LoadFn \<Rightarrow> 'n Registry" where
  "RegisterModule N e reg name loadFn =
     (let loader = RegisterModule_loader N loadFn in LState_PreloadModule reg name loader)"

text \<open>
  \<open>Call\<close>. \<open>make([]*Value, retCount)\<close> is a slice of nil pointers (\<open>None\<close>) and panics
  on a negative length; \<open>Call_loop\<close> is the loop that fills it, \<open>i\<close> running from 0.
\<close>

definition makeslicePanic :: GoPanic where
  "makeslicePanic = RuntimeError ''makeslice: len out of range''"

function Call_loop ::
  "'n LState \<Rightarrow> int \<Rightarrow> int \<Rightarrow> 'n Value option list \<Rightarrow> 'n Value option list" where
  "Call_loop ls retCount i retVals =
     (if i < retCount
      then Call_loop ls retCount (i + 1) (retVals[nat i := Some (newValue (LState_Get ls (- 1)))])
      else retVals)"
  by pat_completeness auto
termination
  by (relation "measure (\<lambda>(ls, retCount, i, retVals). nat (retCount - i))") auto

declare Call_loop.simps [simp del]

definition Call ::
  "(nat \<Rightarrow> 'n Callee) \<Rightarrow> 'n number_ops \<Rightarrow> 'n Engine \<Rightarrow> string \<Rightarrow> int \<Rightarrow> 'n iface list
     \<Rightarrow> GoPanic + (('n Value option list \<times> GoError) \<times> 'n Engine)" where
  "Call F N e name retCount params =
     (let luaParams = map (\<lambda>iface. lval (ValueFor N e iface)) params in
      case LState_CallByParam F (state e)
             \<lparr>Fn = LState_GetGlobal (state e) name, NRet = retCount, Protect = True\<rparr> luaParams of
        Inl p \<Rightarrow> Inl p
      | Inr (Some err, ls) \<Rightarrow> Inr (([], Some err), e\<lparr>state := ls\<rparr>)
      | Inr (None, ls) \<Rightarrow>
          if retCount < 0 then Inl makeslicePanic
          else
            (let retVals = Call_loop ls retCount 0 (replicate (nat retCount) None) in
             case LState_Pop ls retCount of
               Inl p \<Rightarrow> Inl p
             | Inr ls' \<Rightarrow> Inr ((retVals, None), e\<lparr>state := ls'\<rparr>)))"

text \<open>
  A run of module operations on one Engine: registrations and script-side requires, with
  the log of the names whose loader a require invoked. A failed require ends the run.
\<close>

datatype 'n ModuleOp = Register string "'n LoadFn" | Require string

fun runOp ::
  "'n number_ops \<Rightarrow> 'n ModuleOp \<Rightarrow> 'n Engine \<times> 'n Registry \<times> string list
     \<Rightarrow> GoPanic + ('n Engine \<times> 'n Registry \<times> string list)" where
  "runOp N (Register name loadFn) (e, reg, log) = Inr (e, RegisterModule N e reg name loadFn, log)"
| "runOp N (Require name) (e, reg, log) =
     (case require reg (state e) name of
        Inl p \<Rightarrow> Inl p
      | Inr (invoked, m, reg', ls') \<Rightarrow>
          Inr (e\<lparr>state := ls'\<rparr>, reg', if invoked then log @ [name] else log))"

fun runOps ::
  "'n number_ops \<Rightarrow> 'n ModuleOp list \<Rightarrow> 'n Engine \<times> 'n Registry \<times> string list
     \<Rightarrow> GoPanic + ('n Engine \<times> 'n Registry \<times> string list)" where
  "runOps N [] c = Inr c"
| "runOps N (x # xs) c = (case runOp N x c of Inl p \<Rightarrow> Inl p | Inr c' \<Rightarrow> runOps N xs c')"

section \<open>Concrete inputs\<close>

text \<open>
  Inputs on which the operations are evaluated below: numbers as integers, with a
  number parser that reads only the string 10; an Engine without metatables whose only
  global \<open>f\<close> is bound to a script function that returns the two values 1, 2
  (\<open>function f() return 1, 2 end\<close>); an
  empty module registry; and a load function that returns a table.
\<close>

definition example_number_ops :: "int number_ops" where
  "example_number_ops =
     \<lparr>parseNumber = (\<lambda>s. if s = ''10'' then Some 10 else None),
      numberString = (\<lambda>n. if n = 10 then ''10'' else []),
      float64OfInt = (\<lambda>i. i)\<rparr>"

definition example_funcs :: "nat \<Rightarrow> int Callee" where
  "example_funcs = (\<lambda>f args ls. (Inr [LNumber 1, LNumber 2], ls))"

definition example_engine :: "int Engine" where
  "example_engine =
     \<lparr>state = \<lparr>stack = [], globals = [''f'' \<mapsto> LFunction 0], metaOp1 = (\<lambda>v event. LNil)\<rparr>\<rparr>"

definition example_registry :: "int Registry" where
  "example_registry = \<lparr>preload = Map.empty, loaded = Map.empty\<rparr>"

definition example_loadFn :: "int LoadFn" where
  "example_loadFn = (\<lambda>e. Inr (newValue (LTable 7), e))"

section \<open>Properties of Value\<close>

lemma LVIsFalse_iff: "LVIsFalse v \<longleftrightarrow> v = LNil \<or> v = LBool False"
  by (simp add: LVIsFalse_def)

text \<open>
  C10. For every Value, \<open>IsTrue\<close> is exactly the negation of \<open>IsFalse\<close>, and \<open>IsFalse\<close>
  holds for the Values that wrap nil or the boolean false and for no other.
\<close>

theorem IsTrue_negates_IsFalse:
  "IsTrue v = (\<not> IsFalse v) \<and> (IsFalse v \<longleftrightarrow> lval v = LNil \<or> lval v = LFalse)"
  by (simp add: IsTrue_def IsFalse_def LVIsFalse_iff)

text \<open>
  C3. The accessors are functions into the plain result type: no branch of them fails.
  Compatibility is the interpreter's coercion: a string or a number reads as a string, a
  number or a numeric-looking string reads as a number, and every datum reads as a
  boolean. Outside of that \<open>AsString\<close> gives the empty string and \<open>AsNumber\<close> and
  \<open>AsFloat\<close> give 0, also for a string that is no number; \<open>AsBool\<close> gives false
  for nil, and is false for nil and the boolean false only.
\<close>

theorem accessors_total_with_fallback:
  "(Type (lval v) \<noteq> LTString \<and> Type (lval v) \<noteq> LTNumber \<longrightarrow> AsString N v = [])
   \<and> (Type (lval v) \<noteq> LTNumber \<and> Type (lval v) \<noteq> LTString \<longrightarrow>
        AsNumber N v = 0 \<and> AsFloat N v = 0)
   \<and> (lval v = LString s \<and> parseNumber N s = None \<longrightarrow> AsNumber N v = 0 \<and> AsFloat N v = 0)
   \<and> (Type (lval v) = LTNil \<longrightarrow> AsBool v = False)
   \<and> (AsBool v = False \<longleftrightarrow> lval v = LNil \<or> lval v = LFalse)"
  by (cases "lval v") (auto simp: AsString_def AsNumber_def AsFloat_def AsBool_def LVAsBool_def)

theorem accessors_total_with_fallback_witness:
  "Type (lval (newValue (LTable 3) :: int Value)) \<noteq> LTString
   \<and> Type (lval (newValue (LTable 3) :: int Value)) \<noteq> LTNumber
   \<and> AsString example_number_ops (newValue (LTable 3)) = []
   \<and> AsNumber example_number_ops (newValue (LTable 3)) = 0
   \<and> AsFloat example_number_ops (newValue (LTable 3)) = 0
   \<and> lval (newValue (LString ''abc'') :: int Value) = LString ''abc''
   \<and> parseNumber example_number_ops ''abc'' = None
   \<and> AsNumber example_number_ops (newValue (LString ''abc'')) = 0
   \<and> AsFloat example_number_ops (newValue (LString ''abc'')) = 0
   \<and> Type (lval (newValue LNil :: int Value)) = LTNil
   \<and> AsBool (newValue LNil :: int Value) = False"
proof -
  have t: "Type (lval (newValue (LTable 3) :: int Value)) \<noteq> LTString
      \<and> Type (lval (newValue (LTable 3) :: int Value)) \<noteq> LTNumber"
    by (simp add: newValue_def)
  have s: "lval (newValue (LString ''abc'') :: int Value) = LString ''abc''
      \<and> parseNumber example_number_ops ''abc'' = None"
    by (simp add: newValue_def example_number_ops_def)
  have n: "Type (lval (newValue LNil :: int Value)) = LTNil"
    by (simp add: newValue_def)
  show ?thesis
    using t s n
      accessors_total_with_fallback [of "newValue (LTable 3)" example_number_ops "''abc''"]
      accessors_total_with_fallback [of "newValue (LString ''abc'')" example_number_ops "''abc''"]
      accessors_total_with_fallback [of "newValue LNil" example_number_ops "''abc''"]
    by blast
qed

text \<open>
  C2. On a receiver that is not a table every table operation takes its guarded branch:
  \<open>TableAppend\<close> and \<open>TableInsert\<close> leave the heap of tables as it was,
  \<open>TableForEach\<close> calls the visitor on nothing, \<open>TableLen\<close> returns -1, \<open>TableMaxN\<close>
  returns 0, \<open>TableNext\<close> returns a pair of nil Values and \<open>TableRemove\<close> a nil Value
  with the heap unchanged. None of them panics.
\<close>

theorem table_ops_guarded_on_non_table:
  fixes v :: "'n Value"
  assumes "\<not> IsTable v"
  shows "TableAppend T v x h = Inr h
       \<and> TableInsert T v i x h = Inr h
       \<and> TableForEach T v cb h acc = Inr acc
       \<and> TableLen T v h = Inr (- 1)
       \<and> TableMaxN T v h = Inr 0
       \<and> TableNext T v key h = Inr (LuaNil, LuaNil)
       \<and> TableRemove T v pos h = Inr (LuaNil, h)
       \<and> IsNil (LuaNil :: 'n Value)"
proof -
  from assms have g: "\<not> isTable v" by (simp add: IsTable_def isTable_def)
  have nil: "IsNil (LuaNil :: 'n Value)" by (simp add: IsNil_def LuaNil_def newValue_def)
  from g nil show ?thesis
    by (simp add: TableAppend_def TableInsert_def TableForEach_def TableLen_def TableMaxN_def
        TableNext_def TableRemove_def)
qed

theorem table_ops_guarded_on_non_table_witness:
  "\<forall>(T :: (int, 't) table_ops) (h :: 't table_heap) (cb :: int Value \<Rightarrow> int Value \<Rightarrow> nat \<Rightarrow> nat).
     \<not> IsTable (newValue (LString ''s'') :: int Value)
     \<and> TableAppend T (newValue (LString ''s'')) (newValue (LNumber 1)) h = Inr h
     \<and> TableInsert T (newValue (LString ''s'')) 1 (newValue (LNumber 1)) h = Inr h
     \<and> TableForEach T (newValue (LString ''s'')) cb h 0 = Inr 0
     \<and> TableLen T (newValue (LString ''s'')) h = Inr (- 1)
     \<and> TableMaxN T (newValue (LString ''s'')) h = Inr 0
     \<and> TableNext T (newValue (LString ''s'')) LuaNil h = Inr (LuaNil, LuaNil)
     \<and> TableRemove T (newValue (LString ''s'')) 1 h = Inr (LuaNil, h)"
proof (intro allI)
  fix T :: "(int, 't) table_ops" and h :: "'t table_heap"
    and cb :: "int Value \<Rightarrow> int Value \<Rightarrow> nat \<Rightarrow> nat"
  have g: "\<not> IsTable (newValue (LString ''s'') :: int Value)"
    by (simp add: IsTable_def newValue_def)
  from g table_ops_guarded_on_non_table [OF g, of T "newValue (LNumber 1)" h 1 cb 0 LuaNil 1]
  show "\<not> IsTable (newValue (LString ''s'') :: int Value)
     \<and> TableAppend T (newValue (LString ''s'')) (newValue (LNumber 1)) h = Inr h
     \<and> TableInsert T (newValue (LString ''s'')) 1 (newValue (LNumber 1)) h = Inr h
     \<and> TableForEach T (newValue (LString ''s'')) cb h 0 = Inr 0
     \<and> TableLen T (newValue (LString ''s'')) h = Inr (- 1)
     \<and> TableMaxN T (newValue (LString ''s'')) h = Inr 0
     \<and> TableNext T (newValue (LString ''s'')) LuaNil h = Inr (LuaNil, LuaNil)
     \<and> TableRemove T (newValue (LString ''s'')) 1 h = Inr (LuaNil, h)"
    by blast
qed

section \<open>Properties of the stack protocol and of globals\<close>

lemma LState_Get_top: "stack ls = x # xs \<Longrightarrow> LState_Get ls (- 1) = x"
  by (simp add: LState_Get_def Let_def nth_append)

lemma LState_Get_empty: "stack ls = [] \<Longrightarrow> LState_Get ls (- 1) = LNil"
  by (simp add: LState_Get_def)

lemma pop_loop_enough:
  "k \<le> length (stack ls) \<Longrightarrow> pop_loop k ls = Inr (ls\<lparr>stack := drop k (stack ls)\<rparr>)"
proof (induction k arbitrary: ls)
  case 0
  then show ?case by simp
next
  case (Suc k)
  then obtain x xs where st: "stack ls = x # xs" by (cases "stack ls") auto
  with Suc.prems have "k \<le> length (stack (ls\<lparr>stack := xs\<rparr>))" by simp
  from Suc.IH[OF this] st show ?case by simp
qed

lemma PopArg_top:
  "stack (state e) = x # xs \<Longrightarrow>
   PopArg e = Inr (newValue x, e\<lparr>state := (state e)\<lparr>stack := xs\<rparr>\<rparr>)"
  by (simp add: PopArg_def LState_Get_top LState_Pop_def)

text \<open>
  C5. A pop on a frame whose top is \<open>x\<close> returns the Value whose datum is \<open>x\<close> and
  leaves the frame without it. In a host function called with the arguments \<open>(a, b, c)\<close>
  the first \<open>PopArg\<close> returns the Value that holds \<open>c\<close>, the second the one that
  holds \<open>b\<close>, the third the one that holds \<open>a\<close>, and the frame is then empty.
\<close>

theorem PopArg_LIFO:
  "(stack (state e) = x # xs \<longrightarrow>
      PopArg e = Inr (\<lparr>lval = x\<rparr>, e\<lparr>state := (state e)\<lparr>stack := xs\<rparr>\<rparr>))
   \<and> PopArg \<lparr>state = enterFrame ls [a, b, c]\<rparr> = Inr (\<lparr>lval = c\<rparr>, \<lparr>state = ls\<lparr>stack := [b, a]\<rparr>\<rparr>)
   \<and> PopArg \<lparr>state = ls\<lparr>stack := [b, a]\<rparr>\<rparr> = Inr (\<lparr>lval = b\<rparr>, \<lparr>state = ls\<lparr>stack := [a]\<rparr>\<rparr>)
   \<and> PopArg \<lparr>state = ls\<lparr>stack := [a]\<rparr>\<rparr> = Inr (\<lparr>lval = a\<rparr>, \<lparr>state = ls\<lparr>stack := []\<rparr>\<rparr>)
   \<and> (\<forall>v1 e1 v2 e2 v3 e3.
        PopArg \<lparr>state = enterFrame ls [a, b, c]\<rparr> = Inr (v1, e1) \<and> PopArg e1 = Inr (v2, e2)
          \<and> PopArg e2 = Inr (v3, e3)
        \<longrightarrow> lval v1 = c \<and> lval v2 = b \<and> lval v3 = a \<and> stack (state e3) = [])"
  by (auto simp: PopArg_top enterFrame_def newValue_def)

theorem PopArg_LIFO_witness:
  "stack (state \<lparr>state = enterFrame (state example_engine) [LNumber 1, LNumber 2, LNumber 3]\<rparr>)
     = LNumber 3 # [LNumber 2, LNumber 1]
   \<and> PopArg \<lparr>state = enterFrame (state example_engine) [LNumber 1, LNumber 2, LNumber 3]\<rparr>
       = Inr (\<lparr>lval = LNumber 3\<rparr>, \<lparr>state = (state example_engine)\<lparr>stack := [LNumber 2, LNumber 1]\<rparr>\<rparr>)
   \<and> PopArg \<lparr>state = (state example_engine)\<lparr>stack := [LNumber 2, LNumber 1]\<rparr>\<rparr>
       = Inr (\<lparr>lval = LNumber 2\<rparr>, \<lparr>state = (state example_engine)\<lparr>stack := [LNumber 1]\<rparr>\<rparr>)
   \<and> PopArg \<lparr>state = (state example_engine)\<lparr>stack := [LNumber 1]\<rparr>\<rparr>
       = Inr (\<lparr>lval = LNumber 1\<rparr>, \<lparr>state = (state example_engine)\<lparr>stack := []\<rparr>\<rparr>)
   \<and> lval \<lparr>lval = LNumber (3::int)\<rparr> = LNumber 3
   \<and> lval \<lparr>lval = LNumber (2::int)\<rparr> = LNumber 2
   \<and> lval \<lparr>lval = LNumber (1::int)\<rparr> = LNumber 1
   \<and> stack (state \<lparr>state = (state example_engine)\<lparr>stack := []\<rparr>\<rparr>) = []"
  using PopArg_LIFO [of "\<lparr>state = enterFrame (state example_engine) [LNumber 1, LNumber 2, LNumber 3]\<rparr>"
      "LNumber 3" "[LNumber 2, LNumber 1]" "state example_engine" "LNumber 1" "LNumber 2" "LNumber 3"]
  by (simp add: enterFrame_def)

text \<open>A value pushed with \<open>PushRet\<close> is the one the next \<open>PopArg\<close> returns, and the
  Engine is then as it was before the push.\<close>

theorem PushRet_PopArg:
  "PopArg (PushRet N e x) = Inr (ValueFor N e x, e)"
  by (simp add: PushRet_def LState_Push_def PopArg_top newValue_def)

text \<open>
  C4. A bool, an integer, a float or a string stored with \<open>SetGlobal\<close> and read back with
  \<open>GetGlobal\<close> under the same name answers the matching accessor with the value stored:
  the bool itself, the float64 of the integer, the float itself, the string itself.
\<close>

theorem SetGlobal_GetGlobal_roundtrip:
  "AsBool (GetGlobal (SetGlobal N e name (Other (GoBool b))) name) = b
   \<and> AsNumber N (GetGlobal (SetGlobal N e name (Other (GoInt i))) name) = float64OfInt N i
   \<and> AsNumber N (GetGlobal (SetGlobal N e name (Other (GoFloat f))) name) = f
   \<and> AsString N (GetGlobal (SetGlobal N e name (Other (GoString s))) name) = s"
  by (simp add: SetGlobal_def GetGlobal_def LState_SetGlobal_def LState_GetGlobal_def
      newValue_def AsBool_def AsNumber_def AsFloat_def AsString_def LVAsBool_def)

text \<open>
  C9. \<open>GetGlobal\<close> returns a Value and nothing else; for a name absent from the global
  table the Value wraps nil, so \<open>IsNil\<close> holds of it.
\<close>

theorem GetGlobal_absent_is_nil:
  "globals (state e) name = None \<Longrightarrow>
   IsNil (GetGlobal e name) \<and> lval (GetGlobal e name) = LNil"
  by (simp add: GetGlobal_def LState_GetGlobal_def IsNil_def newValue_def)

theorem GetGlobal_absent_is_nil_witness:
  "globals (state example_engine) ''g'' = None
   \<and> IsNil (GetGlobal example_engine ''g'')
   \<and> lval (GetGlobal example_engine ''g'') = LNil"
proof -
  have h: "globals (state example_engine) ''g'' = None"
    by (simp add: example_engine_def)
  from h GetGlobal_absent_is_nil [OF h] show ?thesis by simp
qed

text \<open>
  C7. \<open>ValueFor\<close> applied to a Value returns that Value; so \<open>ValueFor\<close> of the result
  of \<open>ValueFor\<close> is the same Value, on the same script datum, whatever Engine is asked.
\<close>

theorem ValueFor_idempotent:
  "ValueFor N e' (ValuePtr (ValueFor N e x)) = ValueFor N e x
   \<and> lval (ValueFor N e' (ValuePtr (ValueFor N e x))) = lval (ValueFor N e x)
   \<and> ValueFor N e (ValuePtr v) = v"
  by simp

section \<open>Properties of Call\<close>

lemma Call_loop_fills:
  "0 \<le> i \<Longrightarrow> i \<le> retCount \<Longrightarrow> length retVals = nat retCount \<Longrightarrow>
   Call_loop ls retCount i retVals =
     take (nat i) retVals @ replicate (nat (retCount - i)) (Some (newValue (LState_Get ls (- 1))))"
proof (induction ls retCount i retVals rule: Call_loop.induct)
  case (1 ls retCount i retVals)
  show ?case
  proof (cases "i < retCount")
    case True
    let ?v = "Some (newValue (LState_Get ls (- 1)))"
    have step: "Call_loop ls retCount i retVals = Call_loop ls retCount (i + 1) (retVals[nat i := ?v])"
      using True by (subst Call_loop.simps) simp
    have ih: "Call_loop ls retCount (i + 1) (retVals[nat i := ?v]) =
        take (nat (i + 1)) (retVals[nat i := ?v]) @ replicate (nat (retCount - (i + 1))) ?v"
      using "1.IH"[OF True] "1.prems" True by simp
    have lt: "nat i < length retVals" using "1.prems" True by simp
    have n1: "nat (i + 1) = Suc (nat i)" using "1.prems" by simp
    have tk: "take (nat (i + 1)) (retVals[nat i := ?v]) = take (nat i) retVals @ [?v]"
      using lt by (simp add: n1 take_Suc_conv_app_nth)
    have rp: "nat (retCount - i) = Suc (nat (retCount - (i + 1)))" using True by simp
    show ?thesis
      by (simp only: step ih tk rp replicate_Suc append_assoc append_Cons append_Nil)
  next
    case False
    then have "i = retCount" using "1.prems" by simp
    then show ?thesis using "1.prems" by (subst Call_loop.simps) simp
  qed
qed

lemma Call_loop_from_zero:
  "0 \<le> retCount \<Longrightarrow>
   Call_loop ls retCount 0 (replicate (nat retCount) None) =
     replicate (nat retCount) (Some (newValue (LState_Get ls (- 1))))"
  using Call_loop_fills[of 0 retCount "replicate (nat retCount) None" ls] by simp

lemma LState_Get_last:
  "rs \<noteq> [] \<Longrightarrow> LState_Get (ls\<lparr>stack := rev rs @ st\<rparr>) (- 1) = last rs"
  by (cases rs rule: rev_cases) (simp_all add: LState_Get_top)

lemma LState_Pop_results:
  "0 \<le> n \<Longrightarrow> length rs = nat n \<Longrightarrow>
   LState_Pop (ls\<lparr>stack := rev rs @ st\<rparr>) n = Inr (ls\<lparr>stack := st\<rparr>)"
  by (simp add: LState_Pop_def pop_loop_enough)

lemma length_adjustResults:
  "0 \<le> nret \<Longrightarrow> length (adjustResults nret rets) = nat nret"
  by (simp add: adjustResults_def MultRet_def)

text \<open>
  What a successful \<open>Call\<close> returns, in general: the result count is not negative, the
  global is callable and what it runs returned without error, the slice has exactly
  \<open>retCount\<close> entries, every entry is the Value of the last of the results as adjusted
  to \<open>retCount\<close>, and the stack is as it was before the call.
\<close>

theorem Call_success_values:
  assumes "Call F N e name retCount params = Inr ((vals, None), e')"
  shows "0 \<le> retCount \<and> length vals = nat retCount
       \<and> (\<exists>f meta rets ls'.
            metaCall (state e) (LState_GetGlobal (state e) name) = Some (f, meta)
          \<and> F f (if meta
                  then LState_GetGlobal (state e) name
                         # map (\<lambda>iface. lval (ValueFor N e iface)) params
                  else map (\<lambda>iface. lval (ValueFor N e iface)) params) (state e)
              = (Inr rets, ls')
          \<and> vals = replicate (nat retCount)
                     (Some \<lparr>lval = last (adjustResults retCount rets)\<rparr>)
          \<and> e' = e\<lparr>state := ls'\<lparr>stack := stack (state e)\<rparr>\<rparr>)"
proof -
  let ?g = "LState_GetGlobal (state e) name"
  let ?ps = "map (\<lambda>iface. lval (ValueFor N e iface)) params"
  from assms obtain f meta where fn: "metaCall (state e) ?g = Some (f, meta)"
    by (cases "metaCall (state e) ?g")
       (auto simp: Call_def LState_CallByParam_def Let_def split: if_splits)
  let ?args = "if meta then ?g # ?ps else ?ps"
  obtain r ls' where run: "F f ?args (state e) = (r, ls')" by (cases "F f ?args (state e)")
  from assms fn run obtain rets where ok: "r = Inr rets"
    by (cases r) (auto simp: Call_def LState_CallByParam_def Let_def cong: if_cong)
  let ?adj = "adjustResults retCount rets"
  let ?ls = "ls'\<lparr>stack := rev ?adj @ stack (state e)\<rparr>"
  have cbp: "LState_CallByParam F (state e)
      \<lparr>Fn = LState_GetGlobal (state e) name, NRet = retCount, Protect = True\<rparr> ?ps
      = Inr (None, ?ls)"
    using fn run ok by (simp add: LState_CallByParam_def cong: if_cong)
  from assms cbp have nn: "0 \<le> retCount"
    by (auto simp: Call_def Let_def split: if_splits)
  have len: "length ?adj = nat retCount" using nn by (rule length_adjustResults)
  have pop: "LState_Pop ?ls retCount = Inr (ls'\<lparr>stack := stack (state e)\<rparr>)"
    using LState_Pop_results[OF nn len] .
  have top: "replicate (nat retCount) (Some (newValue (LState_Get ?ls (- 1))))
      = replicate (nat retCount) (Some \<lparr>lval = last ?adj\<rparr>)"
  proof (cases "?adj = []")
    case True
    with len show ?thesis by simp
  next
    case False
    then show ?thesis by (simp add: LState_Get_last newValue_def)
  qed
  from assms cbp nn pop have
    v: "vals = Call_loop ?ls retCount 0 (replicate (nat retCount) None)"
    and e: "e' = e\<lparr>state := ls'\<lparr>stack := stack (state e)\<rparr>\<rparr>"
    by (auto simp: Call_def Let_def)
  from v nn top have v': "vals = replicate (nat retCount) (Some \<lparr>lval = last ?adj\<rparr>)"
    by (simp add: Call_loop_from_zero)
  from nn v' fn run ok e show ?thesis by auto
qed

lemma example_call_two:
  "Call example_funcs example_number_ops example_engine ''f'' 2 [] =
     Inr (([Some (newValue (LNumber 2)), Some (newValue (LNumber 2))], None), example_engine)"
  by (simp add: Call_def LState_CallByParam_def LState_GetGlobal_def adjustResults_def
      MultRet_def Call_loop.simps LState_Get_def LState_Pop_def example_funcs_def metaCall_def
      example_engine_def numeral_2_eq_2)

theorem Call_success_values_witness:
  "Call example_funcs example_number_ops example_engine ''f'' 2 [] =
     Inr (([Some (newValue (LNumber 2)), Some (newValue (LNumber 2))], None), example_engine)
   \<and> (0::int) \<le> 2
   \<and> length [Some (newValue (LNumber (2::int))), Some (newValue (LNumber 2))] = nat 2
   \<and> (\<exists>f meta rets ls'.
         metaCall (state example_engine) (LState_GetGlobal (state example_engine) ''f'')
           = Some (f, meta)
       \<and> example_funcs f
            (if meta
             then LState_GetGlobal (state example_engine) ''f''
                    # map (\<lambda>iface. lval (ValueFor example_number_ops example_engine iface)) []
             else map (\<lambda>iface. lval (ValueFor example_number_ops example_engine iface)) [])
            (state example_engine) = (Inr rets, ls')
       \<and> [Some (newValue (LNumber (2::int))), Some (newValue (LNumber 2))]
           = replicate (nat 2) (Some \<lparr>lval = last (adjustResults 2 rets)\<rparr>)
       \<and> example_engine = example_engine\<lparr>state := ls'\<lparr>stack := stack (state example_engine)\<rparr>\<rparr>)"
  using example_call_two Call_success_values [OF example_call_two] by simp

text \<open>
  A call that succeeds with a negative result count (\<open>lua.MultRet\<close> is -1) does not
  return: allocating the slice panics.
\<close>

theorem Call_negative_count_panics:
  assumes "LState_GetGlobal (state e) name = LFunction f"
    and "F f (map (\<lambda>iface. lval (ValueFor N e iface)) params) (state e) = (Inr rets, ls')"
    and "retCount < 0"
  shows "Call F N e name retCount params = Inl makeslicePanic"
  using assms by (simp add: Call_def LState_CallByParam_def metaCall_def)

theorem Call_negative_count_panics_witness:
  "LState_GetGlobal (state example_engine) ''f'' = LFunction 0
   \<and> example_funcs 0 (map (\<lambda>iface. lval (ValueFor example_number_ops example_engine iface)) [])
        (state example_engine) = (Inr [LNumber 1, LNumber 2], state example_engine)
   \<and> MultRet < 0
   \<and> Call example_funcs example_number_ops example_engine ''f'' MultRet [] = Inl makeslicePanic"
proof -
  have h1: "LState_GetGlobal (state example_engine) ''f'' = LFunction 0"
    by (simp add: LState_GetGlobal_def example_engine_def)
  have h2: "example_funcs 0
      (map (\<lambda>iface. lval (ValueFor example_number_ops example_engine iface)) [])
      (state example_engine) = (Inr [LNumber 1, LNumber 2], state example_engine)"
    by (simp add: example_funcs_def)
  have h3: "MultRet < 0" by (simp add: MultRet_def)
  from h1 h2 h3
    Call_negative_count_panics [where F = example_funcs and N = example_number_ops
      and e = example_engine and name = "''f''" and f = 0 and params = "[]"
      and retCount = MultRet, OF h1 h2 h3]
  show ?thesis by simp
qed

text \<open>
  C1. The script function \<open>f\<close> returns 1, 2. \<open>Call\<close> for two results succeeds with a
  slice of two Values, and both hold 2, the last return value: the loop reads the top of
  the stack at every index and pops only after it. Asked for three results, all three
  hold the nil that pads the results, and neither 1 nor 2 is returned.
\<close>

theorem Call_repeats_last_result:
  "Call example_funcs example_number_ops example_engine ''f'' 2 [] =
     Inr (([Some (newValue (LNumber 2)), Some (newValue (LNumber 2))], None), example_engine)
   \<and> Call example_funcs example_number_ops example_engine ''f'' 3 [] =
     Inr (([Some (newValue LNil), Some (newValue LNil), Some (newValue LNil)], None),
          example_engine)"
  by (simp add: Call_def LState_CallByParam_def LState_GetGlobal_def adjustResults_def
      MultRet_def Call_loop.simps LState_Get_def LState_Pop_def example_funcs_def metaCall_def
      example_engine_def numeral_2_eq_2 numeral_3_eq_3)

text \<open>
  C6. A global is callable when it is a function object or the \<open>__call\<close> metamethod of
  its metatable is one. When the global under the name is neither (an undefined name
  reads as nil), \<open>Call\<close> returns (it does not panic) the interpreter's error for a call
  on a value that is not callable, with no Values, and leaves the Engine as it was.
  Whenever \<open>Call\<close> returns an error, the slice it returns with it is empty.
\<close>

theorem Call_failure_returns_no_values:
  "(\<not> IsFunction (GetGlobal e name)
    \<and> Type (metaOp1 (state e) (lval (GetGlobal e name)) ''__call'') \<noteq> LTFunction \<longrightarrow>
      Call F N e name retCount params = Inr (([], Some CallNonFunction), e))
   \<and> (Call F N e name retCount params = Inr ((vals, Some err), e') \<longrightarrow> vals = [])"
proof (intro conjI impI)
  let ?g = "LState_GetGlobal (state e) name"
  assume "\<not> IsFunction (GetGlobal e name)
    \<and> Type (metaOp1 (state e) (lval (GetGlobal e name)) ''__call'') \<noteq> LTFunction"
  then have nf: "Type ?g \<noteq> LTFunction"
    and nm: "Type (metaOp1 (state e) ?g ''__call'') \<noteq> LTFunction"
    by (simp_all add: IsFunction_def GetGlobal_def newValue_def)
  from nm have m: "(case metaOp1 (state e) ?g ''__call'' of
        LFunction fn \<Rightarrow> Some (fn, True) | _ \<Rightarrow> None) = None"
    by (cases "metaOp1 (state e) ?g ''__call''") simp_all
  from nf m have "metaCall (state e) ?g = None"
    by (cases ?g) (simp_all add: metaCall_def)
  then show "Call F N e name retCount params = Inr (([], Some CallNonFunction), e)"
    by (simp add: Call_def LState_CallByParam_def)
next
  assume "Call F N e name retCount params = Inr ((vals, Some err), e')"
  then show "vals = []"
    by (auto simp: Call_def Let_def split: sum.splits prod.splits option.splits if_splits)
qed

theorem Call_failure_returns_no_values_witness:
  "\<not> IsFunction (GetGlobal example_engine ''g'')
   \<and> Type (metaOp1 (state example_engine) (lval (GetGlobal example_engine ''g'')) ''__call'')
       \<noteq> LTFunction
   \<and> Call example_funcs example_number_ops example_engine ''g'' 1 [Other (GoInt 5)] =
        Inr (([], Some CallNonFunction), example_engine)"
proof -
  have h: "\<not> IsFunction (GetGlobal example_engine ''g'')
      \<and> Type (metaOp1 (state example_engine) (lval (GetGlobal example_engine ''g'')) ''__call'')
          \<noteq> LTFunction"
    by (simp add: IsFunction_def GetGlobal_def LState_GetGlobal_def newValue_def
        example_engine_def)
  from h Call_failure_returns_no_values [of example_engine "''g''" example_funcs
      example_number_ops 1 "[Other (GoInt 5)]" "[]" CallNonFunction example_engine]
  show ?thesis by blast
qed

text \<open>A table whose metatable has a function under \<open>__call\<close> is callable: \<open>Call\<close> on a
  global bound to it runs that function, with the table as its first argument.\<close>

lemma Call_callable_table:
  assumes "LState_GetGlobal (state e) name = LTable t"
    and "metaOp1 (state e) (LTable t) ''__call'' = LFunction f"
    and "F f (LTable t # map (\<lambda>iface. lval (ValueFor N e iface)) params) (state e) = (Inr rets, ls')"
  shows "Call F N e name 0 params = Inr (([], None), e\<lparr>state := ls'\<lparr>stack := stack (state e)\<rparr>\<rparr>)"
  using assms
  by (simp add: Call_def LState_CallByParam_def metaCall_def adjustResults_def MultRet_def
      Call_loop.simps LState_Pop_def)

section \<open>Properties of module registration\<close>

lemma require_invoked:
  "require reg ls name = Inr (True, m, reg', ls') \<Longrightarrow>
     loaded reg name = None \<and> reg' = reg\<lparr>loaded := (loaded reg)(name \<mapsto> m)\<rparr>"
  by (auto simp: require_def Let_def split: option.splits sum.splits prod.splits)

lemma require_cached:
  "require reg ls name = Inr (False, m, reg', ls') \<Longrightarrow>
     reg' = reg \<and> ls' = ls \<and> loaded reg name = Some m"
  by (auto simp: require_def Let_def split: option.splits sum.splits prod.splits)

lemma RegisterModule_registry:
  "RegisterModule N e reg name loadFn =
     reg\<lparr>preload := (preload reg)(name \<mapsto> RegisterModule_loader N loadFn)\<rparr>"
  by (simp add: RegisterModule_def LState_PreloadModule_def)

text \<open>One operation keeps the log free of repetitions and within the loaded modules, and
  only a require adds to it.\<close>

lemma runOp_log:
  assumes "runOp N x (e, reg, log) = Inr (e', reg', log')"
    and "distinct log" and "set log \<subseteq> dom (loaded reg)"
  shows "distinct log' \<and> set log' \<subseteq> dom (loaded reg')
       \<and> (\<forall>n\<in>set log'. n \<in> set log \<or> x = Require n)"
proof (cases x)
  case (Register name loadFn)
  with assms show ?thesis by (auto simp: RegisterModule_registry)
next
  case (Require name)
  with assms obtain invoked m ls' where
    r: "require reg (state e) name = Inr (invoked, m, reg', ls')"
    and l: "log' = (if invoked then log @ [name] else log)"
    by (auto split: sum.splits)
  show ?thesis
  proof (cases invoked)
    case True
    with r have r': "require reg (state e) name = Inr (True, m, reg', ls')" by simp
    from require_invoked[OF r'] have
      "loaded reg name = None" "reg' = reg\<lparr>loaded := (loaded reg)(name \<mapsto> m)\<rparr>" by simp_all
    with assms(2,3) l True Require show ?thesis by auto
  next
    case False
    with r have r': "require reg (state e) name = Inr (False, m, reg', ls')" by simp
    from require_cached[OF r'] have "reg' = reg" by simp
    with assms(2,3) l False show ?thesis by auto
  qed
qed

lemma runOps_log:
  "runOps N ops (e, reg, log) = Inr (e', reg', log') \<Longrightarrow> distinct log \<Longrightarrow>
   set log \<subseteq> dom (loaded reg) \<Longrightarrow>
   distinct log' \<and> set log' \<subseteq> dom (loaded reg')
     \<and> (\<forall>n\<in>set log'. n \<in> set log \<or> Require n \<in> set ops)"
proof (induction ops arbitrary: e reg log)
  case Nil
  then show ?case by simp
next
  case (Cons x xs)
  from Cons.prems(1) obtain e1 reg1 log1 where
    s1: "runOp N x (e, reg, log) = Inr (e1, reg1, log1)"
    and s2: "runOps N xs (e1, reg1, log1) = Inr (e', reg', log')"
    by (auto split: sum.splits)
  from runOp_log[OF s1 Cons.prems(2,3)] have
    d1: "distinct log1" and m1: "set log1 \<subseteq> dom (loaded reg1)"
    and o1: "\<forall>n\<in>set log1. n \<in> set log \<or> x = Require n" by blast+
  from Cons.IH[OF s2 d1 m1] have
    "distinct log'" "set log' \<subseteq> dom (loaded reg')"
    and o2: "\<forall>n\<in>set log'. n \<in> set log1 \<or> Require n \<in> set xs" by blast+
  moreover from o1 o2 have "\<forall>n\<in>set log'. n \<in> set log \<or> Require n \<in> set (x # xs)"
    by auto
  ultimately show ?case by blast
qed

lemma RegisterModule_loader_pushes_one:
  "loadFn \<lparr>state = l\<rparr> = Inr (m, e1) \<Longrightarrow>
   RegisterModule_loader N loadFn l = Inr (1, (state e1)\<lparr>stack := lval m # stack (state e1)\<rparr>)"
  by (simp add: RegisterModule_loader_def PushRet_def LState_Push_def)

lemma require_after_RegisterModule:
  assumes "loaded reg name = None"
    and "loadFn \<lparr>state = enterFrame ls [LString name]\<rparr> = Inr (m, e1)"
  shows "require (RegisterModule N e reg name loadFn) ls name =
           Inr (True, lval m,
                (RegisterModule N e reg name loadFn)\<lparr>loaded := (loaded reg)(name \<mapsto> lval m)\<rparr>,
                (state e1)\<lparr>stack := stack ls\<rparr>)"
  using assms
  by (simp add: require_def RegisterModule_registry RegisterModule_loader_pushes_one
      LState_Get_top Let_def)

text \<open>
  C8. Registration stores the loader under the name and does nothing else: the Engine and
  the log of invocations are as before. In a run of registrations and requires that all
  succeed, no name is in the log of invoked loaders twice, and every name in it was
  required. The first require of a registered module that is not loaded invokes the
  loader and yields the Value the load function returned. An invocation of the loader
  pushes that one value on the state the load function left, and returns the count 1.
\<close>

theorem RegisterModule_lazy_once:
  "runOp N (Register name loadFn) (e, reg, log) =
       Inr (e, reg\<lparr>preload := (preload reg)(name \<mapsto> RegisterModule_loader N loadFn)\<rparr>, log)
   \<and> (runOps N ops (e, reg, []) = Inr (e', reg', log') \<longrightarrow>
        distinct log' \<and> (\<forall>n\<in>set log'. Require n \<in> set ops))
   \<and> (loaded reg name = None \<and> loadFn \<lparr>state = enterFrame ls [LString name]\<rparr> = Inr (m, e1) \<longrightarrow>
        require (RegisterModule N e reg name loadFn) ls name =
           Inr (True, lval m,
                (RegisterModule N e reg name loadFn)\<lparr>loaded := (loaded reg)(name \<mapsto> lval m)\<rparr>,
                (state e1)\<lparr>stack := stack ls\<rparr>))
   \<and> (loadFn \<lparr>state = l\<rparr> = Inr (m, e1) \<longrightarrow>
        RegisterModule_loader N loadFn l =
          Inr (1, (state e1)\<lparr>stack := lval m # stack (state e1)\<rparr>))"
proof (intro conjI impI)
  show "runOp N (Register name loadFn) (e, reg, log) =
       Inr (e, reg\<lparr>preload := (preload reg)(name \<mapsto> RegisterModule_loader N loadFn)\<rparr>, log)"
    by (simp add: RegisterModule_registry)
next
  assume "runOps N ops (e, reg, []) = Inr (e', reg', log')"
  from runOps_log[OF this] show "distinct log'" by simp
next
  assume "runOps N ops (e, reg, []) = Inr (e', reg', log')"
  from runOps_log[OF this] show "\<forall>n\<in>set log'. Require n \<in> set ops" by simp
next
  assume "loaded reg name = None \<and> loadFn \<lparr>state = enterFrame ls [LString name]\<rparr> = Inr (m, e1)"
  then show "require (RegisterModule N e reg name loadFn) ls name =
           Inr (True, lval m,
                (RegisterModule N e reg name loadFn)\<lparr>loaded := (loaded reg)(name \<mapsto> lval m)\<rparr>,
                (state e1)\<lparr>stack := stack ls\<rparr>)"
    using require_after_RegisterModule by blast
next
  assume "loadFn \<lparr>state = l\<rparr> = Inr (m, e1)"
  then show "RegisterModule_loader N loadFn l =
          Inr (1, (state e1)\<lparr>stack := lval m # stack (state e1)\<rparr>)"
    by (rule RegisterModule_loader_pushes_one)
qed

lemma example_run:
  "runOps example_number_ops
     [Register ''m'' example_loadFn, Require ''m'', Require ''m'']
     (example_engine, example_registry, []) =
   Inr (example_engine,
        \<lparr>preload = [''m'' \<mapsto> RegisterModule_loader example_number_ops example_loadFn],
         loaded = [''m'' \<mapsto> LTable 7]\<rparr>,
        [''m''])"
  by (simp add: RegisterModule_registry require_def RegisterModule_loader_def PushRet_def
      example_loadFn_def newValue_def LState_Get_top LState_Push_def example_registry_def
      example_engine_def enterFrame_def Let_def)

theorem RegisterModule_lazy_once_witness:
  "runOps example_number_ops
       [Register ''m'' example_loadFn, Require ''m'', Require ''m'']
       (example_engine, example_registry, []) =
     Inr (example_engine,
          \<lparr>preload = [''m'' \<mapsto> RegisterModule_loader example_number_ops example_loadFn],
           loaded = [''m'' \<mapsto> LTable 7]\<rparr>,
          [''m''])
   \<and> distinct [''m'']
   \<and> loaded example_registry ''m'' = None
   \<and> example_loadFn \<lparr>state = enterFrame (state example_engine) [LString ''m'']\<rparr> =
       Inr (newValue (LTable 7), \<lparr>state = enterFrame (state example_engine) [LString ''m'']\<rparr>)
   \<and> require (RegisterModule example_number_ops example_engine example_registry ''m''
                example_loadFn) (state example_engine) ''m'' =
       Inr (True, LTable 7,
            (RegisterModule example_number_ops example_engine example_registry ''m''
               example_loadFn)\<lparr>loaded := (loaded example_registry)(''m'' \<mapsto> LTable 7)\<rparr>,
            state example_engine)
   \<and> RegisterModule_loader example_number_ops example_loadFn
         (enterFrame (state example_engine) [LString ''m'']) =
       Inr (1, (enterFrame (state example_engine) [LString ''m''])
                 \<lparr>stack := [LTable 7, LString ''m'']\<rparr>)"
proof -
  let ?fr = "enterFrame (state example_engine) [LString ''m'']"
  have h1: "loaded example_registry ''m'' = None"
    by (simp add: example_registry_def)
  have h2: "example_loadFn \<lparr>state = ?fr\<rparr> = Inr (newValue (LTable 7), \<lparr>state = ?fr\<rparr>)"
    by (simp add: example_loadFn_def)
  have st: "stack (state example_engine) = []"
    by (simp add: example_engine_def)
  have fr: "(state \<lparr>state = ?fr\<rparr>)\<lparr>stack := stack (state example_engine)\<rparr> = state example_engine"
    by (simp add: enterFrame_def)
  have fs: "(state \<lparr>state = ?fr\<rparr>)\<lparr>stack := lval (newValue (LTable 7)) # stack (state \<lparr>state = ?fr\<rparr>)\<rparr>
      = ?fr\<lparr>stack := [LTable 7, LString ''m'']\<rparr>"
    by (simp add: enterFrame_def newValue_def)
  have lv: "lval (newValue (LTable 7) :: int Value) = LTable 7"
    by (simp add: newValue_def)
  note t = RegisterModule_lazy_once [of example_number_ops "''m''" example_loadFn example_engine
      example_registry "[]" "[Register ''m'' example_loadFn, Require ''m'', Require ''m'']"
      example_engine
      "\<lparr>preload = [''m'' \<mapsto> RegisterModule_loader example_number_ops example_loadFn],
        loaded = [''m'' \<mapsto> LTable 7]\<rparr>"
      "[''m'']" "state example_engine" "newValue (LTable 7)" "\<lparr>state = ?fr\<rparr>" ?fr]
  from t h1 h2 have r: "require (RegisterModule example_number_ops example_engine example_registry
        ''m'' example_loadFn) (state example_engine) ''m'' =
       Inr (True, LTable 7,
            (RegisterModule example_number_ops example_engine example_registry ''m''
               example_loadFn)\<lparr>loaded := (loaded example_registry)(''m'' \<mapsto> LTable 7)\<rparr>,
            state example_engine)"
    by (simp only: lv fr simp_thms)
  from t h2 have p: "RegisterModule_loader example_number_ops example_loadFn ?fr =
       Inr (1, ?fr\<lparr>stack := [LTable 7, LString ''m'']\<rparr>)"
    by (simp only: fs simp_thms)
  from example_run h1 h2 r p show ?thesis by simp
qed

end
